theory Spec2Isabelle
  imports Main "HOL-Library.Sublist" "HOL-Library.AList" "HOL-Library.List_Lexorder"
    "HOL-Library.Char_ord"
begin

section \<open>Errors and log entries\<close>

text \<open>
  A JavaScript exception is a value: \<open>Error msg\<close> is \<^verbatim>\<open>new Error(msg)\<close>,
  \<open>TypeError msg\<close> is what the runtime raises by itself (calling a method that a
  value does not have, reading a property of \<^verbatim>\<open>undefined\<close>, handing
  \<^verbatim>\<open>undefined\<close> to \<^verbatim>\<open>readFileSync\<close>), and \<open>SystemError code\<close> is a failure of
  the \<^verbatim>\<open>fs\<close> module (ENOENT, EISDIR, EACCES, ...). Every call of \<^verbatim>\<open>logger\<close> is
  an entry of the log a function returns beside its result.
\<close>

datatype error = Error string | TypeError string | SystemError string

datatype level = Debug | Info | Warn | Severe

type_synonym logentry = "level \<times> string"

section \<open>The credentials file and the CR token file\<close>

text \<open>
  The \<^verbatim>\<open>fs\<close> module is external; the three functions the source imports from it are
  the fields of \<open>fsmodule\<close>. \<^verbatim>\<open>lstatSync\<close> and \<^verbatim>\<open>readFileSync\<close> may throw.
  Where the module cannot be loaded (a browser bundle) the imported \<^verbatim>\<open>existsSync\<close>
  is undefined: the environment then holds no module, the case the guard
  \<^verbatim>\<open>if (!existsSync)\<close> tests.
\<close>

record stats =
  isFile :: bool
  isSymbolicLink :: bool

record fsmodule =
  existsSync :: "string \<Rightarrow> bool"
  lstatSync :: "string \<Rightarrow> error + stats"
  readFileSync :: "string \<Rightarrow> error + string"

text \<open>
  The process environment as \<^verbatim>\<open>readCredentialsFile\<close> reads it: the variable
  \<^verbatim>\<open>IBM_CREDENTIALS_FILE\<close>, \<^verbatim>\<open>process.cwd()\<close>, \<^verbatim>\<open>os.homedir()\<close>, and the two
  library functions \<^verbatim>\<open>path.join\<close> and dotenv's \<^verbatim>\<open>parse\<close>.
\<close>

record environment =
  fs :: "fsmodule option"
  IBM_CREDENTIALS_FILE :: "string option"
  cwd :: string
  homedir :: string
  join :: "string \<Rightarrow> string \<Rightarrow> string"
  parse :: "string \<Rightarrow> (string \<times> string) list"

definition defaultCredsFilename :: string where
  "defaultCredsFilename = ''ibm-credentials.env''"

definition fileExistsAtPath :: "fsmodule \<Rightarrow> string \<Rightarrow> error + bool" where
  "fileExistsAtPath fsm filepath =
     (if existsSync fsm filepath then
        (case lstatSync fsm filepath of
           Inl e \<Rightarrow> Inl e
         | Inr st \<Rightarrow> Inr (isFile st \<or> isSymbolicLink st))
      else Inr False)"

definition constructFilepath :: "(string \<Rightarrow> string \<Rightarrow> string) \<Rightarrow> string \<Rightarrow> string" where
  "constructFilepath pjoin filepath =
     (if \<not> suffix defaultCredsFilename filepath then pjoin filepath defaultCredsFilename
      else filepath)"

text \<open>
  \<^verbatim>\<open>readFileSync(filepathToUse)\<close> followed by \<^verbatim>\<open>parse\<close>. The variable
  \<^verbatim>\<open>filepathToUse\<close> is declared without a value, so it is an option here; Node's
  \<^verbatim>\<open>readFileSync(undefined)\<close> throws a TypeError with code ERR_INVALID_ARG_TYPE.
\<close>

definition readAndParse ::
  "environment \<Rightarrow> fsmodule \<Rightarrow> string option \<Rightarrow> (error + (string \<times> string) list) \<times> logentry list" where
  "readAndParse env fsm filepathToUse =
     (case filepathToUse of
        None \<Rightarrow> (Inl (TypeError ''ERR_INVALID_ARG_TYPE''), [])
      | Some p \<Rightarrow>
          (case readFileSync fsm p of
             Inl e \<Rightarrow> (Inl e, [])
           | Inr credsFile \<Rightarrow> (Inr (parse env credsFile), [])))"

definition readCredentialsFile ::
  "environment \<Rightarrow> (error + (string \<times> string) list) \<times> logentry list" where
  "readCredentialsFile env =
     (case fs env of
        None \<Rightarrow> (Inr [], [])
      | Some fsm \<Rightarrow>
          (let givenFilepath = (case IBM_CREDENTIALS_FILE env of None \<Rightarrow> [] | Some p \<Rightarrow> p);
               workingDir = constructFilepath (join env) (cwd env);
               homeDir = constructFilepath (join env) (homedir env)
           in if givenFilepath \<noteq> [] then
                (case fileExistsAtPath fsm givenFilepath of
                   Inl e \<Rightarrow> (Inl e, [])
                 | Inr True \<Rightarrow> readAndParse env fsm (Some givenFilepath)
                 | Inr False \<Rightarrow>
                     (case fileExistsAtPath fsm (constructFilepath (join env) givenFilepath) of
                        Inl e \<Rightarrow> (Inl e, [])
                      | Inr True \<Rightarrow>
                          readAndParse env fsm (Some (constructFilepath (join env) givenFilepath))
                      | Inr False \<Rightarrow> readAndParse env fsm None))
              else
                (case fileExistsAtPath fsm workingDir of
                   Inl e \<Rightarrow> (Inl e, [])
                 | Inr True \<Rightarrow> readAndParse env fsm (Some workingDir)
                 | Inr False \<Rightarrow>
                     (case fileExistsAtPath fsm homeDir of
                        Inl e \<Rightarrow> (Inl e, [])
                      | Inr True \<Rightarrow> readAndParse env fsm (Some homeDir)
                      | Inr False \<Rightarrow>
                          (Inr [], [(Info, ''Credential file does not exist. Will not be used'')])))))"

definition readCrTokenFile :: "fsmodule option \<Rightarrow> string \<Rightarrow> (error + string) \<times> logentry list" where
  "readCrTokenFile fso filepath =
     (case fso of
        None \<Rightarrow> (Inr [], [])
      | Some fsm \<Rightarrow>
          (case fileExistsAtPath fsm filepath of
             Inl e \<Rightarrow> (Inl e, [])
           | Inr fileExists \<Rightarrow>
               (case (if fileExists then readFileSync fsm filepath else Inr []) of
                  Inl e \<Rightarrow> (Inl e, [])
                | Inr token \<Rightarrow>
                    (let read_log =
                           (if fileExists
                            then [(Debug, ''Successfully read CR token from file: '' @ filepath)]
                            else [])
                     in if token = [] then
                          (Inl (Error (''Unable to retrieve the CR token value from file: '' @ filepath)),
                           read_log @
                             [(Severe,
                               if fileExists
                               then ''Expected to read CR token from file but the file is empty: '' @ filepath
                               else ''Expected to find CR token file but the file does not exist: '' @ filepath)])
                        else (Inr token, read_log)))))"

section \<open>JavaScript values\<close>

text \<open>
  The option bags, parameter maps and request descriptions of the source are untyped
  (\<^verbatim>\<open>any\<close>), and the source tests them with truthiness, \<^verbatim>\<open>typeof\<close> and strict
  equality, so they are values of \<open>jsval\<close>. An object is a plain object (its
  prototype is \<^verbatim>\<open>Object.prototype\<close>), given as the list of its own properties in
  the order \<^verbatim>\<open>Object.keys\<close> gives them. A function is known by its name only.
  Numbers are integers here: no claim depends on a fraction.

  Reading a property looks at the object's own properties first and then at the
  properties every plain object inherits from \<^verbatim>\<open>Object.prototype\<close>
  (\<^verbatim>\<open>constructor\<close>, \<^verbatim>\<open>toString\<close>, ...); only a name found in neither reads as
  \<^verbatim>\<open>undefined\<close>. \<open>js_get\<close> is that read, used where the name comes from the
  caller. \<open>obj_get\<close> looks at the own properties only: it is the read of the names
  the source writes out itself (\<^verbatim>\<open>url\<close>, \<^verbatim>\<open>serviceUrl\<close>, \<^verbatim>\<open>authenticator\<close>,
  ...), none of which \<^verbatim>\<open>Object.prototype\<close> defines, and there the two agree.
\<close>

datatype jsval =
    JUndefined
  | JNull
  | JBool bool
  | JNum int
  | JStr string
  | JArr "jsval list"
  | JObj "(string \<times> jsval) list"
  | JFunction string

type_synonym jsobj = "(string \<times> jsval) list"

fun truthy :: "jsval \<Rightarrow> bool" where
  "truthy JUndefined = False"
| "truthy JNull = False"
| "truthy (JBool b) = b"
| "truthy (JNum n) = (n \<noteq> 0)"
| "truthy (JStr s) = (s \<noteq> [])"
| "truthy (JArr xs) = True"
| "truthy (JObj kvs) = True"
| "truthy (JFunction f) = True"

fun typeof :: "jsval \<Rightarrow> string" where
  "typeof JUndefined = ''undefined''"
| "typeof JNull = ''object''"
| "typeof (JBool b) = ''boolean''"
| "typeof (JNum n) = ''number''"
| "typeof (JStr s) = ''string''"
| "typeof (JArr xs) = ''object''"
| "typeof (JObj kvs) = ''object''"
| "typeof (JFunction f) = ''function''"

definition obj_get :: "jsobj \<Rightarrow> string \<Rightarrow> jsval" where
  \<comment> \<open>\<^verbatim>\<open>obj.key\<close> for a name that \<^verbatim>\<open>Object.prototype\<close> does not define\<close>
  "obj_get obj key = (case map_of obj key of None \<Rightarrow> JUndefined | Some v \<Rightarrow> v)"

definition ObjectPrototype :: jsobj where
  \<comment> \<open>what a plain object inherits; \<^verbatim>\<open>__proto__\<close> reads as \<^verbatim>\<open>Object.prototype\<close> itself\<close>
  "ObjectPrototype =
     [(''constructor'', JFunction ''Object''),
      (''__defineGetter__'', JFunction ''__defineGetter__''),
      (''__defineSetter__'', JFunction ''__defineSetter__''),
      (''hasOwnProperty'', JFunction ''hasOwnProperty''),
      (''__lookupGetter__'', JFunction ''__lookupGetter__''),
      (''__lookupSetter__'', JFunction ''__lookupSetter__''),
      (''isPrototypeOf'', JFunction ''isPrototypeOf''),
      (''propertyIsEnumerable'', JFunction ''propertyIsEnumerable''),
      (''toString'', JFunction ''toString''),
      (''valueOf'', JFunction ''valueOf''),
      (''__proto__'', JObj []),
      (''toLocaleString'', JFunction ''toLocaleString'')]"

definition js_get :: "jsobj \<Rightarrow> string \<Rightarrow> jsval" where
  \<comment> \<open>\<^verbatim>\<open>obj[key]\<close> for any name: own property first, then the prototype\<close>
  "js_get obj key =
     (case map_of obj key of
        Some v \<Rightarrow> v
      | None \<Rightarrow> (case map_of ObjectPrototype key of Some v \<Rightarrow> v | None \<Rightarrow> JUndefined))"

fun js_prop :: "jsval \<Rightarrow> string \<Rightarrow> jsval" where
  \<comment> \<open>\<^verbatim>\<open>v.key\<close> on a value that is neither \<^verbatim>\<open>undefined\<close> nor \<^verbatim>\<open>null\<close>\<close>
  "js_prop (JObj kvs) key = obj_get kvs key"
| "js_prop v key = JUndefined"

definition Object_keys :: "jsobj \<Rightarrow> string list" where
  "Object_keys obj = map fst obj"

definition Object_assign :: "jsobj \<Rightarrow> jsobj \<Rightarrow> jsobj" where
  \<comment> \<open>\<^verbatim>\<open>Object.assign(target, source)\<close>, also the object spread \<^verbatim>\<open>{...target, ...source}\<close>\<close>
  "Object_assign target source =
     fold (\<lambda>key t. AList.update key (obj_get source key) t) (Object_keys source) target"

fun js_set :: "jsval \<Rightarrow> string \<Rightarrow> jsval \<Rightarrow> jsval" where
  "js_set (JObj kvs) key v = JObj (AList.update key v kvs)"
| "js_set u key v = u"

fun js_join :: "string \<Rightarrow> string list \<Rightarrow> string" where
  \<comment> \<open>\<^verbatim>\<open>Array.prototype.join\<close> on an array of strings\<close>
  "js_join sep [] = []"
| "js_join sep [x] = x"
| "js_join sep (x # y # ys) = x @ sep @ js_join sep (y # ys)"

definition newline :: string where
  "newline = [CHR 0x0A]"

section \<open>helper.ts: trailing slash, parameter validation\<close>

definition stripTrailingSlash :: "string \<Rightarrow> string" where
  \<comment> \<open>\<^verbatim>\<open>url.replace(/\/$/, '')\<close>: the pattern matches one slash at the end of the input\<close>
  "stripTrailingSlash url = (if url \<noteq> [] \<and> last url = CHR ''/'' then butlast url else url)"

definition stripTrailingSlash_any :: "jsval \<Rightarrow> error + string" where
  \<comment> \<open>the same call on an untyped argument: only a string has the method \<^verbatim>\<open>replace\<close>\<close>
  "stripTrailingSlash_any url =
     (case url of
        JStr s \<Rightarrow> Inr (stripTrailingSlash s)
      | _ \<Rightarrow> Inl (TypeError ''url.replace is not a function''))"



section \<open>helper.ts: the parameterized service URL\<close>

text \<open>
  \<^verbatim>\<open>String.prototype.replace\<close> with a string pattern replaces the leftmost occurrence
  of the pattern, and expands the replacement text first (ECMAScript's
  GetSubstitution): \<^verbatim>\<open>$$\<close> is a dollar sign, \<^verbatim>\<open>$&\<close> the matched text,
  \<^verbatim>\<open>$`\<close> the text before the match and \<^verbatim>\<open>$'\<close> the text after it. A string
  pattern has no capture groups, so \<^verbatim>\<open>$1\<close> and the like stay as they are.
\<close>

fun split_first :: "string \<Rightarrow> string \<Rightarrow> (string \<times> string) option" where
  \<comment> \<open>the text front and back the leftmost occurrence of the pattern\<close>
  "split_first pat [] = (if pat = [] then Some ([], []) else None)"
| "split_first pat (c # s) =
     (if prefix pat (c # s) then Some ([], drop (length pat) (c # s))
      else (case split_first pat s of
              None \<Rightarrow> None
            | Some (front, back) \<Rightarrow> Some (c # front, back)))"

fun getSubstitution :: "string \<Rightarrow> string \<Rightarrow> string \<Rightarrow> string \<Rightarrow> string" where
  "getSubstitution matched front back [] = []"
| "getSubstitution matched front back [c] = [c]"
| "getSubstitution matched front back (c # d # r) =
     (if c = CHR ''$'' \<and> d = CHR ''$'' then CHR ''$'' # getSubstitution matched front back r
      else if c = CHR ''$'' \<and> d = CHR ''&'' then matched @ getSubstitution matched front back r
      else if c = CHR ''$'' \<and> d = CHR 0x60 then front @ getSubstitution matched front back r
      else if c = CHR ''$'' \<and> d = CHR 0x27 then back @ getSubstitution matched front back r
      else c # getSubstitution matched front back (d # r))"

definition js_replace :: "string \<Rightarrow> string \<Rightarrow> string \<Rightarrow> string" where
  "js_replace s pat replacement =
     (case split_first pat s of
        None \<Rightarrow> s
      | Some (front, back) \<Rightarrow> front @ getSubstitution pat front back replacement @ back)"

definition placeholder :: "string \<Rightarrow> string" where
  \<comment> \<open>the template literal \<^verbatim>\<open>`{${name}}`\<close>\<close>
  "placeholder name = CHR ''{'' # name @ ''}''"

text \<open>
  A \<^verbatim>\<open>Map<string, string>\<close> is the list of its entries in insertion order, the order
  \<^verbatim>\<open>forEach\<close> visits them; \<^verbatim>\<open>get\<close> is \<open>map_of\<close>. The second argument may be
  \<^verbatim>\<open>null\<close>. The array of names in the error message is printed by the template
  literal as \<^verbatim>\<open>join(',')\<close> of the sorted names.
\<close>

definition invalidVariableMessage :: "string \<Rightarrow> (string \<times> string) list \<Rightarrow> string" where
  "invalidVariableMessage name defaultUrlVariables =
     [CHR 0x27] @ name @ [CHR 0x27] @ '' is an invalid variable name.'' @ newline
       @ ''      Valid variable names: ['' @ js_join '','' (sort (map fst defaultUrlVariables)) @ ''].''"

definition constructServiceUrl ::
  "string \<Rightarrow> (string \<times> string) list \<Rightarrow> (string \<times> string) list option \<Rightarrow> error + string" where
  "constructServiceUrl parameterizedUrl defaultUrlVariables providedUrlVariables =
     (let provided = (case providedUrlVariables of None \<Rightarrow> [] | Some m \<Rightarrow> m)
      in case find (\<lambda>name. name \<notin> set (map fst defaultUrlVariables)) (map fst provided) of
           Some name \<Rightarrow> Inl (Error (invalidVariableMessage name defaultUrlVariables))
         | None \<Rightarrow>
             Inr (fold
                   (\<lambda>(name, defaultValue) formattedUrl.
                      (let formatValue =
                             (case map_of provided name of
                                Some providedValue \<Rightarrow> providedValue
                              | None \<Rightarrow> defaultValue)
                       in js_replace formattedUrl (placeholder name) formatValue))
                   defaultUrlVariables parameterizedUrl))"

section \<open>helper.ts: file parameters of a multipart request\<close>

text \<open>
  The shapes a file parameter's \<^verbatim>\<open>data\<close> may have at run time: a Buffer, a
  readable stream (with or without a \<^verbatim>\<open>path\<close> property, itself a string or a
  Buffer), a string (accepted for backward compatibility), or a \<^verbatim>\<open>FileObject\<close>
  (an object with a \<^verbatim>\<open>value\<close> and, optionally, \<^verbatim>\<open>options\<close>). The field
  \<^verbatim>\<open>value\<close> is called \<open>val\<close> here. The libraries the function calls
  (\<^verbatim>\<open>path.basename\<close>, mime-types' \<^verbatim>\<open>lookup\<close>, file-type's
  \<^verbatim>\<open>fromBuffer\<close> followed by \<^verbatim>\<open>.mime\<close>, and the Buffer conversions) are the
  fields of \<open>filelibs\<close>; \<open>None\<close> is their \<^verbatim>\<open>false\<close>, \<^verbatim>\<open>undefined\<close> or
  \<^verbatim>\<open>null\<close>.
\<close>

type_synonym bytes = "nat list"

datatype pathval = PathString string | PathBuffer bytes

record FileOptions =
  filename :: "string option"
  contentType :: "string option"

datatype fileval =
    FBuffer bytes
  | FStream "pathval option"
  | FString string
  | FObject fileval "FileOptions option"

record FileWithMetadata = FileOptions +
  data :: fileval

record FileObject =
  val :: fileval
  options :: FileOptions

record filelibs =
  basename :: "string \<Rightarrow> string"
  lookup :: "pathval \<Rightarrow> string option"
  fromBuffer :: "bytes \<Rightarrow> string option"
  Buffer_from :: "string \<Rightarrow> bytes"
  Buffer_toString :: "bytes \<Rightarrow> string"

fun truthyString :: "string option \<Rightarrow> bool" where
  "truthyString None = False"
| "truthyString (Some s) = (s \<noteq> [])"

fun truthyPath :: "pathval option \<Rightarrow> bool" where
  "truthyPath None = False"
| "truthyPath (Some (PathString s)) = (s \<noteq> [])"
| "truthyPath (Some (PathBuffer b)) = True"

fun truthyFile :: "fileval \<Rightarrow> bool" where
  "truthyFile (FString s) = (s \<noteq> [])"
| "truthyFile v = True"

definition js_or :: "string option \<Rightarrow> string option \<Rightarrow> string option" where
  \<comment> \<open>\<^verbatim>\<open>a || b\<close> on optional strings\<close>
  "js_or a b = (if truthyString a then a else b)"

fun isFileObject :: "fileval \<Rightarrow> bool" where
  "isFileObject (FObject v opts) = truthyFile v"
| "isFileObject obj = False"

fun isFileStream :: "fileval \<Rightarrow> bool" where
  "isFileStream (FStream p) = truthyPath p"
| "isFileStream obj = False"

fun isFileData :: "fileval \<Rightarrow> bool" where
  "isFileData (FStream p) = True"
| "isFileData (FBuffer b) = True"
| "isFileData obj = False"

fun getContentType :: "filelibs \<Rightarrow> fileval \<Rightarrow> string option" where
  "getContentType libs (FStream p) =
     (if truthyPath p then
        (case p of
           Some path \<Rightarrow> (if truthyString (lookup libs path) then lookup libs path else None)
         | None \<Rightarrow> None)
      else None)"
| "getContentType libs (FBuffer b) = fromBuffer libs b"
| "getContentType libs inputData = None"

definition pathToString :: "filelibs \<Rightarrow> pathval \<Rightarrow> string" where
  "pathToString libs p = (case p of PathString s \<Rightarrow> s | PathBuffer b \<Rightarrow> Buffer_toString libs b)"

definition buildRequestFileObject :: "filelibs \<Rightarrow> FileWithMetadata \<Rightarrow> FileObject" where
  "buildRequestFileObject libs fileParam =
     (let fileObj0 =
            (if isFileObject (data fileParam) then
               (case data fileParam of
                  FObject v opts \<Rightarrow>
                    \<lparr> val = v,
                      options =
                        (case opts of
                           Some nested \<Rightarrow>
                             \<lparr> filename = js_or (filename fileParam) (filename nested),
                               contentType = js_or (contentType fileParam) (contentType nested) \<rparr>
                         | None \<Rightarrow> \<lparr> filename = None, contentType = None \<rparr>) \<rparr>
                | other \<Rightarrow>
                    \<lparr> val = other,
                      options = \<lparr> filename = filename fileParam,
                                  contentType = contentType fileParam \<rparr> \<rparr>)
             else
               \<lparr> val = data fileParam,
                 options = \<lparr> filename = filename fileParam,
                             contentType = contentType fileParam \<rparr> \<rparr>);
          fileObj1 =
            (case val fileObj0 of
               FString s \<Rightarrow> fileObj0 \<lparr> val := FBuffer (Buffer_from libs s) \<rparr>
             | other \<Rightarrow> fileObj0);
          filename0 = map_option PathString (filename (options fileObj1));
          filename1 =
            (if \<not> truthyPath filename0 \<and> isFileStream (val fileObj1)
             then (case val fileObj1 of FStream p \<Rightarrow> p | other \<Rightarrow> filename0)
             else filename0);
          fileObj2 =
            fileObj1 \<lparr> options := (options fileObj1)
              \<lparr> filename :=
                  (case filename1 of
                     Some p \<Rightarrow>
                       (if truthyPath filename1 then Some (basename libs (pathToString libs p))
                        else Some ''_'')
                   | None \<Rightarrow> Some ''_'') \<rparr> \<rparr>
      in if \<not> truthyString (contentType (options fileObj2)) \<and> isFileData (val fileObj2) then
           fileObj2 \<lparr> options := (options fileObj2)
             \<lparr> contentType :=
                 (if truthyString (getContentType libs (val fileObj2))
                  then getContentType libs (val fileObj2)
                  else Some ''application/octet-stream'') \<rparr> \<rparr>
         else fileObj2)"

section \<open>base-service.ts: the service and its options\<close>

text \<open>
  The service instance: its normalized options, its authenticator, and the request
  wrapper, which is external and is represented by the options it was built from.
  \<^verbatim>\<open>checkCredentials\<close> and \<^verbatim>\<open>readExternalSources\<close> live outside the shown files
  and are parameters, as is the subclass's static \<^verbatim>\<open>DEFAULT_SERVICE_URL\<close>. The
  flag \<open>isInstance\<close> is the test \<^verbatim>\<open>this instanceof BaseService\<close>.
\<close>

record service =
  baseOptions :: jsobj
  authenticator :: jsval
  requestWrapperInstance :: jsobj

definition newKeywordRequired :: string where
  "newKeywordRequired =
     ''the '' @ [CHR 0x22] @ ''new'' @ [CHR 0x22] @ '' keyword is required to create service instances''"

definition BaseService_new ::
  "bool \<Rightarrow> jsval \<Rightarrow> (jsobj \<Rightarrow> string list \<Rightarrow> error option) \<Rightarrow> jsobj
     \<Rightarrow> (error + service) \<times> logentry list" where
  "BaseService_new isInstance DEFAULT_SERVICE_URL checkCredentials userOptions =
     (if \<not> isInstance then
        (Inl (Error newKeywordRequired),
         [(Severe, ''Error creating an instance of BaseService: '' @ newKeywordRequired)])
      else
        (let options0 = userOptions;
             options1 =
               (if truthy (obj_get options0 ''url'') \<and> \<not> truthy (obj_get options0 ''serviceUrl'')
                then AList.update ''serviceUrl'' (obj_get options0 ''url'') options0
                else options0)
         in case (if truthy (obj_get options1 ''serviceUrl'')
                  then (case stripTrailingSlash_any (obj_get options1 ''serviceUrl'') of
                          Inl e \<Rightarrow> Inl e
                        | Inr stripped \<Rightarrow> Inr [(''serviceUrl'', JStr stripped)])
                  else Inr []) of
              Inl e \<Rightarrow> (Inl e, [])
            | Inr baseServiceOptions \<Rightarrow>
                (case checkCredentials options1 [''serviceUrl''] of
                   Some credentialProblems \<Rightarrow>
                     (Inl credentialProblems,
                      [(Severe, (case credentialProblems of
                                   Error m \<Rightarrow> m | TypeError m \<Rightarrow> m | SystemError m \<Rightarrow> m))])
                 | None \<Rightarrow>
                     (let options2 =
                            (if obj_get options1 ''disableSslVerification'' \<noteq> JBool True
                             then AList.update ''disableSslVerification'' (JBool False) options1
                             else options1);
                          opts =
                            Object_assign
                              (Object_assign
                                 [(''qs'', JObj []), (''serviceUrl'', DEFAULT_SERVICE_URL)] options2)
                              baseServiceOptions
                      in if \<not> truthy (obj_get options2 ''authenticator'') then
                           (Inl (Error ''Authenticator must be set.''), [])
                         else
                           (Inr \<lparr> baseOptions = opts,
                                  authenticator = obj_get options2 ''authenticator'',
                                  requestWrapperInstance = opts \<rparr>, [])))))"

definition setServiceUrl :: "jsval \<Rightarrow> service \<Rightarrow> error + service" where
  "setServiceUrl url this =
     (if truthy url then
        (case stripTrailingSlash_any url of
           Inl e \<Rightarrow> Inl e
         | Inr stripped \<Rightarrow>
             Inr (this \<lparr> baseOptions := AList.update ''serviceUrl'' (JStr stripped) (baseOptions this) \<rparr>))
      else Inr this)"

definition assignIf :: "bool \<Rightarrow> string \<Rightarrow> jsval \<Rightarrow> jsobj \<Rightarrow> jsobj" where
  \<comment> \<open>\<^verbatim>\<open>if (c) { results.key = v; }\<close>\<close>
  "assignIf c key v results = (if c then AList.update key v results else results)"

definition readOptionsFromExternalConfig :: "(jsval \<Rightarrow> jsval) \<Rightarrow> jsval \<Rightarrow> error + jsobj" where
  "readOptionsFromExternalConfig readExternalSources serviceName =
     (let results0 = [];
          properties = readExternalSources serviceName
      in if properties \<noteq> JNull then
           (if properties = JUndefined then
              Inl (TypeError ''Cannot destructure properties of undefined'')
            else
              (let url = js_prop properties ''url'';
                   disableSsl = js_prop properties ''disableSsl'';
                   enableGzip = js_prop properties ''enableGzip'';
                   enableRetries = js_prop properties ''enableRetries'';
                   maxRetries = js_prop properties ''maxRetries'';
                   retryInterval = js_prop properties ''retryInterval''
               in case (if truthy url
                        then (case stripTrailingSlash_any url of
                                Inl e \<Rightarrow> Inl e
                              | Inr stripped \<Rightarrow>
                                  Inr (AList.update ''serviceUrl'' (JStr stripped) results0))
                        else Inr results0) of
                    Inl e \<Rightarrow> Inl e
                  | Inr results1 \<Rightarrow>
                      (let results2 =
                             assignIf (disableSsl = JBool True)
                               ''disableSslVerification'' disableSsl results1;
                           results3 =
                             assignIf (enableGzip = JBool True)
                               ''enableGzipCompression'' enableGzip results2;
                           results4 =
                             assignIf (enableRetries \<noteq> JUndefined)
                               ''enableRetries'' enableRetries results3;
                           results5 =
                             assignIf (maxRetries \<noteq> JUndefined)
                               ''maxRetries'' maxRetries results4;
                           results6 =
                             assignIf (retryInterval \<noteq> JUndefined)
                               ''retryInterval'' retryInterval results5
                       in Inr results6)))
         else Inr results0)"

definition serviceNameRequired :: string where
  "serviceNameRequired = ''Error configuring service. Service name is required.''"

definition configureService ::
  "(jsval \<Rightarrow> jsval) \<Rightarrow> jsval \<Rightarrow> service \<Rightarrow> (error + service) \<times> logentry list" where
  "configureService readExternalSources serviceName this =
     (if \<not> truthy serviceName then
        (Inl (Error serviceNameRequired), [(Severe, serviceNameRequired)])
      else
        (case readOptionsFromExternalConfig readExternalSources serviceName of
           Inl e \<Rightarrow> (Inl e, [])
         | Inr results \<Rightarrow>
             (let opts = Object_assign (baseOptions this) results
              in (Inr (this \<lparr> baseOptions := opts, requestWrapperInstance := opts \<rparr>), []))))"

section \<open>base-service.ts: authenticate, then send\<close>

text \<open>
  The authenticator and the transport are collaborators: functions that return a
  promise, which is fulfilled, rejected or never settled. The authenticator may
  change the request's \<^verbatim>\<open>defaultOptions\<close> in place; a fulfilled
  \<open>authenticate\<close> carries the object as it leaves it. Beside its result
  \<^verbatim>\<open>createRequest\<close> returns the calls it made on the two collaborators, in order.
  A synchronous throw is \<open>Inl\<close>, a returned promise \<open>Inr\<close>.
\<close>

datatype 'a promise = Fulfilled 'a | Rejected error | Pending

datatype event = Authenticate jsval | SendRequest jsval

definition createRequest ::
  "(jsval \<Rightarrow> jsval promise) \<Rightarrow> (jsval \<Rightarrow> jsval promise) \<Rightarrow> jsval
     \<Rightarrow> (error + jsval promise) \<times> event list" where
  "createRequest authenticate sendRequest parameters =
     (if parameters = JUndefined \<or> parameters = JNull then
        (Inl (TypeError ''Cannot read properties of undefined (reading defaultOptions)''), [])
      else
        (let defaultOptions = js_prop parameters ''defaultOptions'';
             serviceUrl =
               (if truthy defaultOptions then js_prop defaultOptions ''serviceUrl''
                else defaultOptions)
         in if \<not> truthy serviceUrl \<or> typeof serviceUrl \<noteq> ''string'' then
              (Inr (Rejected (Error ''The service URL is required'')), [])
            else
              (case authenticate defaultOptions of
                 Fulfilled authenticated \<Rightarrow>
                   (let sent = js_set parameters ''defaultOptions'' authenticated
                    in (Inr (sendRequest sent), [Authenticate defaultOptions, SendRequest sent]))
               | Rejected e \<Rightarrow> (Inr (Rejected e), [Authenticate defaultOptions])
               | Pending \<Rightarrow> (Inr Pending, [Authenticate defaultOptions]))))"

section \<open>Concrete inputs\<close>

text \<open>
  An environment with the \<^verbatim>\<open>fs\<close> module loaded, \<^verbatim>\<open>IBM_CREDENTIALS_FILE\<close> naming a
  path that does not exist, and no file anywhere else either.
\<close>

definition emptyFs :: fsmodule where
  "emptyFs = \<lparr> existsSync = (\<lambda>p. False),
               lstatSync = (\<lambda>p. Inl (SystemError ''ENOENT'')),
               readFileSync = (\<lambda>p. Inl (SystemError ''ENOENT'')) \<rparr>"

definition danglingEnv :: environment where
  "danglingEnv = \<lparr> fs = Some emptyFs,
                   IBM_CREDENTIALS_FILE = Some ''/nonexistent/creds.env'',
                   cwd = ''/work'',
                   homedir = ''/home/user'',
                   join = (\<lambda>a b. a @ ''/'' @ b),
                   parse = (\<lambda>s. []) \<rparr>"

text \<open>A file system holding one regular file, for the token reader.\<close>

definition oneFileFs :: "string \<Rightarrow> string \<Rightarrow> fsmodule" where
  "oneFileFs name contents =
     \<lparr> existsSync = (\<lambda>p. p = name),
       lstatSync = (\<lambda>p. if p = name then Inr \<lparr> isFile = True, isSymbolicLink = False \<rparr>
                        else Inl (SystemError ''ENOENT'')),
       readFileSync = (\<lambda>p. if p = name then Inr contents else Inl (SystemError ''ENOENT'')) \<rparr>"

definition svc0 :: service where
  \<comment> \<open>a service whose caller disabled SSL verification and set a version\<close>
  "svc0 = \<lparr> baseOptions = [(''serviceUrl'', JStr ''https://default''),
                            (''disableSslVerification'', JBool True),
                            (''version'', JStr ''2021-01-01'')],
            authenticator = JObj [],
            requestWrapperInstance = [] \<rparr>"

definition userOptions0 :: jsobj where
  \<comment> \<open>constructor options that give the URL under the legacy name\<close>
  "userOptions0 = [(''authenticator'', JObj []), (''url'', JStr ''https://host/'')]"

definition created0 :: service where
  "created0 =
     \<lparr> baseOptions = [(''qs'', JObj []), (''serviceUrl'', JStr ''https://host''),
                      (''authenticator'', JObj []), (''url'', JStr ''https://host/''),
                      (''disableSslVerification'', JBool False)],
       authenticator = JObj [],
       requestWrapperInstance = [(''qs'', JObj []), (''serviceUrl'', JStr ''https://host''),
                      (''authenticator'', JObj []), (''url'', JStr ''https://host/''),
                      (''disableSslVerification'', JBool False)] \<rparr>"

definition request0 :: jsval where
  \<comment> \<open>a request description that carries a service URL\<close>
  "request0 = JObj [(''options'', JObj [(''method'', JStr ''GET'')]),
                    (''defaultOptions'', JObj [(''serviceUrl'', JStr ''https://host'')])]"

definition explicitNameParam :: "bytes \<Rightarrow> FileWithMetadata" where
  \<comment> \<open>a file parameter with explicit metadata whose data is a FileObject without options\<close>
  "explicitNameParam b =
     \<lparr> filename = Some ''report.txt'', contentType = Some ''text/plain'',
       data = FObject (FBuffer b) None \<rparr>"

section \<open>Notions used to state the results\<close>

definition requestServiceUrl :: "jsval \<Rightarrow> jsval" where
  \<comment> \<open>the service URL a request description carries in its \<^verbatim>\<open>defaultOptions\<close>\<close>
  "requestServiceUrl parameters = js_prop (js_prop parameters ''defaultOptions'') ''serviceUrl''"

definition braceFree :: "string \<Rightarrow> bool" where
  \<comment> \<open>a variable name that contains neither brace\<close>
  "braceFree s = (CHR ''{'' \<notin> set s \<and> CHR ''}'' \<notin> set s)"

text \<open>
  What an external configuration record contributes to a key of the normalized
  options, if anything: the stripped \<^verbatim>\<open>url\<close> when it is a non-empty string,
  \<^verbatim>\<open>disableSsl\<close> and \<^verbatim>\<open>enableGzip\<close> only when they are the boolean \<^verbatim>\<open>true\<close>,
  and the three retry settings whenever they are not \<^verbatim>\<open>undefined\<close>. This is the
  statement \<^verbatim>\<open>configureService\<close> is compared with; it is not taken from the code.
\<close>

definition externalOverride :: "jsobj \<Rightarrow> string \<Rightarrow> jsval option" where
  "externalOverride ext key =
     (if key = ''serviceUrl'' then
        (case obj_get ext ''url'' of
           JStr s \<Rightarrow> if s \<noteq> [] then Some (JStr (stripTrailingSlash s)) else None
         | other \<Rightarrow> None)
      else if key = ''disableSslVerification'' then
        (if obj_get ext ''disableSsl'' = JBool True then Some (JBool True) else None)
      else if key = ''enableGzipCompression'' then
        (if obj_get ext ''enableGzip'' = JBool True then Some (JBool True) else None)
      else if key = ''enableRetries'' then
        (if obj_get ext ''enableRetries'' \<noteq> JUndefined
         then Some (obj_get ext ''enableRetries'') else None)
      else if key = ''maxRetries'' then
        (if obj_get ext ''maxRetries'' \<noteq> JUndefined
         then Some (obj_get ext ''maxRetries'') else None)
      else if key = ''retryInterval'' then
        (if obj_get ext ''retryInterval'' \<noteq> JUndefined
         then Some (obj_get ext ''retryInterval'') else None)
      else None)"

definition overlaySteps :: "jsobj \<Rightarrow> jsobj \<Rightarrow> jsobj" where
  \<comment> \<open>the five conditional assignments of \<^verbatim>\<open>readOptionsFromExternalConfig\<close>, on an object\<close>
  "overlaySteps ext results1 =
     assignIf (obj_get ext ''retryInterval'' \<noteq> JUndefined)
       ''retryInterval'' (obj_get ext ''retryInterval'')
      (assignIf (obj_get ext ''maxRetries'' \<noteq> JUndefined)
         ''maxRetries'' (obj_get ext ''maxRetries'')
        (assignIf (obj_get ext ''enableRetries'' \<noteq> JUndefined)
           ''enableRetries'' (obj_get ext ''enableRetries'')
          (assignIf (obj_get ext ''enableGzip'' = JBool True)
             ''enableGzipCompression'' (obj_get ext ''enableGzip'')
            (assignIf (obj_get ext ''disableSsl'' = JBool True)
               ''disableSslVerification'' (obj_get ext ''disableSsl'')
               results1))))"

section \<open>Results about the credentials file and the token file\<close>

lemma readCredentialsFile_unset:
  assumes "fs env = Some fsm"
    and "IBM_CREDENTIALS_FILE env = None \<or> IBM_CREDENTIALS_FILE env = Some []"
    and "fileExistsAtPath fsm (constructFilepath (join env) (cwd env)) = Inr False"
    and "fileExistsAtPath fsm (constructFilepath (join env) (homedir env)) = Inr False"
  shows "readCredentialsFile env =
           (Inr [], [(Info, ''Credential file does not exist. Will not be used'')])"
  using assms by (auto simp: readCredentialsFile_def Let_def)

lemma readCredentialsFile_set_not_found:
  assumes "fs env = Some fsm"
    and "IBM_CREDENTIALS_FILE env = Some p" and "p \<noteq> []"
    and "fileExistsAtPath fsm p = Inr False"
    and "fileExistsAtPath fsm (constructFilepath (join env) p) = Inr False"
  shows "readCredentialsFile env = (Inl (TypeError ''ERR_INVALID_ARG_TYPE''), [])"
  using assms by (simp add: readCredentialsFile_def readAndParse_def Let_def)

text \<open>
  C1 (the code at the failing input). With \<^verbatim>\<open>IBM_CREDENTIALS_FILE\<close> set to a path
  that does not exist and no credentials file at any of the four locations,
  \<^verbatim>\<open>readCredentialsFile\<close> does not return the empty record: neither inner test
  assigns \<^verbatim>\<open>filepathToUse\<close>, the outer \<^verbatim>\<open>else\<close> branches (working directory,
  home directory, the informational message and \<^verbatim>\<open>return {}\<close>) are skipped, and
  \<^verbatim>\<open>readFileSync(undefined)\<close> throws a TypeError. Nothing is logged.
\<close>

theorem readCredentialsFile_dangling_env_throws:
  "readCredentialsFile danglingEnv = (Inl (TypeError ''ERR_INVALID_ARG_TYPE''), [])"
  by (simp add: readCredentialsFile_def danglingEnv_def emptyFs_def fileExistsAtPath_def
      constructFilepath_def readAndParse_def Let_def)

text \<open>
  C7 (as amended). When the \<^verbatim>\<open>fs\<close> module is available, for every file system
  and every path: when no file exists at the path, \<^verbatim>\<open>readCrTokenFile\<close> throws;
  when a file exists and its contents are the empty string, it throws the same
  error, an \<^verbatim>\<open>Error\<close> with the same message; the two causes differ only in the
  entry logged at error level; and when the file's contents are a non-empty
  string, it returns the contents in full. When the \<^verbatim>\<open>fs\<close> module is not
  available, it returns the empty string and neither throws nor logs.
\<close>

theorem readCrTokenFile_missing_empty_nonempty:
  "(fileExistsAtPath fsm filepath = Inr False \<longrightarrow>
      readCrTokenFile (Some fsm) filepath =
        (Inl (Error (''Unable to retrieve the CR token value from file: '' @ filepath)),
         [(Severe, ''Expected to find CR token file but the file does not exist: '' @ filepath)]))
   \<and> (fileExistsAtPath fsm filepath = Inr True \<and> readFileSync fsm filepath = Inr [] \<longrightarrow>
      readCrTokenFile (Some fsm) filepath =
        (Inl (Error (''Unable to retrieve the CR token value from file: '' @ filepath)),
         [(Debug, ''Successfully read CR token from file: '' @ filepath),
          (Severe, ''Expected to read CR token from file but the file is empty: '' @ filepath)]))
   \<and> ''Expected to find CR token file but the file does not exist: '' @ filepath
       \<noteq> ''Expected to read CR token from file but the file is empty: '' @ filepath
   \<and> (\<forall>token. fileExistsAtPath fsm filepath = Inr True \<and> readFileSync fsm filepath = Inr token
        \<and> token \<noteq> [] \<longrightarrow>
      readCrTokenFile (Some fsm) filepath =
        (Inr token, [(Debug, ''Successfully read CR token from file: '' @ filepath)]))
   \<and> readCrTokenFile None filepath = (Inr [], [])"
  by (simp add: readCrTokenFile_def)

text \<open>
  The witness: a file system with one file, read at another path, at the file when
  it is empty and at the file when it holds \<^verbatim>\<open>abc\<close>; and a read without the
  \<^verbatim>\<open>fs\<close> module.
\<close>

theorem readCrTokenFile_missing_empty_nonempty_witness:
  "readCrTokenFile (Some (oneFileFs ''/t'' ''abc'')) ''/u'' =
     (Inl (Error ''Unable to retrieve the CR token value from file: /u''),
      [(Severe, ''Expected to find CR token file but the file does not exist: /u'')])
   \<and> readCrTokenFile (Some (oneFileFs ''/t'' [])) ''/t'' =
     (Inl (Error ''Unable to retrieve the CR token value from file: /t''),
      [(Debug, ''Successfully read CR token from file: /t''),
       (Severe, ''Expected to read CR token from file but the file is empty: /t'')])
   \<and> readCrTokenFile (Some (oneFileFs ''/t'' ''abc'')) ''/t'' =
     (Inr ''abc'', [(Debug, ''Successfully read CR token from file: /t'')])
   \<and> readCrTokenFile None ''/t'' = (Inr [], [])"
proof -
  have a: "fileExistsAtPath (oneFileFs ''/t'' ''abc'') ''/u'' = Inr False"
    by (simp add: fileExistsAtPath_def oneFileFs_def)
  have b: "fileExistsAtPath (oneFileFs ''/t'' []) ''/t'' = Inr True
           \<and> readFileSync (oneFileFs ''/t'' []) ''/t'' = Inr []"
    by (simp add: fileExistsAtPath_def oneFileFs_def)
  have c: "fileExistsAtPath (oneFileFs ''/t'' ''abc'') ''/t'' = Inr True
           \<and> readFileSync (oneFileFs ''/t'' ''abc'') ''/t'' = Inr ''abc'' \<and> ''abc'' \<noteq> []"
    by (simp add: fileExistsAtPath_def oneFileFs_def)
  show ?thesis
    using a b c
      readCrTokenFile_missing_empty_nonempty [of "oneFileFs ''/t'' ''abc''" "''/u''"]
      readCrTokenFile_missing_empty_nonempty [of "oneFileFs ''/t'' []" "''/t''"]
      readCrTokenFile_missing_empty_nonempty [of "oneFileFs ''/t'' ''abc''" "''/t''"]
    by simp
qed

text \<open>
  C7 as it was stated fails where the \<^verbatim>\<open>fs\<close> module is not available (the guard
  \<^verbatim>\<open>if (!existsSync)\<close>): no file can be found at the path, and the function
  returns the empty string instead of throwing.
\<close>

theorem readCrTokenFile_missing_empty_nonempty_counterexample:
  "readCrTokenFile None ''/var/run/secrets/tokens/vault-token'' = (Inr [], [])"
  by (simp add: readCrTokenFile_def)

section \<open>Results about objects\<close>

lemma obj_get_update:
  "obj_get (AList.update k v al) k' = (if k' = k then v else obj_get al k')"
  by (simp add: obj_get_def update_conv')

lemma obj_get_Cons: "obj_get ((k, v) # al) k' = (if k' = k then v else obj_get al k')"
  by (simp add: obj_get_def)

lemma obj_get_fold_update:
  "obj_get (fold (\<lambda>key t. AList.update key (f key) t) ks t) k =
     (if k \<in> set ks then f k else obj_get t k)"
  by (induction ks arbitrary: t) (auto simp: obj_get_update)

lemma obj_get_Object_assign:
  "obj_get (Object_assign target source) k =
     (if k \<in> set (Object_keys source) then obj_get source k else obj_get target k)"
  by (simp add: Object_assign_def obj_get_fold_update)

lemma obj_get_Object_assign_map_of:
  "obj_get (Object_assign target source) k =
     (case map_of source k of Some v \<Rightarrow> v | None \<Rightarrow> obj_get target k)"
proof (cases "map_of source k")
  case None
  then have "k \<notin> set (Object_keys source)"
    by (simp add: Object_keys_def map_of_eq_None_iff)
  with None show ?thesis by (simp add: obj_get_Object_assign)
next
  case (Some v)
  then have "k \<in> set (Object_keys source)"
    by (metis Object_keys_def map_of_eq_None_iff option.distinct(1) set_map)
  then have "obj_get (Object_assign target source) k = obj_get source k"
    by (simp add: obj_get_Object_assign)
  with Some show ?thesis by (simp add: obj_get_def)
qed

lemma map_of_assignIf:
  "map_of (assignIf c k v al) key = (if c \<and> key = k then Some v else map_of al key)"
  by (simp add: assignIf_def update_conv')

section \<open>Results about the external configuration\<close>

lemma overlaySteps_map_of:
  assumes "map_of results1 = (\<lambda>key. if key = ''serviceUrl'' then u else None)"
    and "externalOverride ext ''serviceUrl'' = u"
  shows "map_of (overlaySteps ext results1) key = externalOverride ext key"
proof -
  consider "key = ''serviceUrl''" | "key = ''disableSslVerification''"
    | "key = ''enableGzipCompression''" | "key = ''enableRetries''" | "key = ''maxRetries''"
    | "key = ''retryInterval''"
    | "key \<noteq> ''serviceUrl''" "key \<noteq> ''disableSslVerification''"
      "key \<noteq> ''enableGzipCompression''" "key \<noteq> ''enableRetries''" "key \<noteq> ''maxRetries''"
      "key \<noteq> ''retryInterval''"
    by blast
  then show ?thesis
  proof cases
    case 1
    with assms show ?thesis
      unfolding overlaySteps_def map_of_assignIf by simp
  next
    case 2
    with assms(1) show ?thesis
      unfolding overlaySteps_def map_of_assignIf by (simp add: externalOverride_def)
  next
    case 3
    with assms(1) show ?thesis
      unfolding overlaySteps_def map_of_assignIf by (simp add: externalOverride_def)
  next
    case 4
    with assms(1) show ?thesis
      unfolding overlaySteps_def map_of_assignIf by (simp add: externalOverride_def)
  next
    case 5
    with assms(1) show ?thesis
      unfolding overlaySteps_def map_of_assignIf by (simp add: externalOverride_def)
  next
    case 6
    with assms(1) show ?thesis
      unfolding overlaySteps_def map_of_assignIf by (simp add: externalOverride_def)
  next
    case 7
    with assms(1) show ?thesis
      unfolding overlaySteps_def map_of_assignIf by (simp add: externalOverride_def)
  qed
qed

lemma readOptions_overlaySteps:
  assumes "readExternalSources serviceName = JObj ext"
  shows "readOptionsFromExternalConfig readExternalSources serviceName =
           (case (if truthy (obj_get ext ''url'')
                  then (case stripTrailingSlash_any (obj_get ext ''url'') of
                          Inl e \<Rightarrow> Inl e
                        | Inr stripped \<Rightarrow> Inr (AList.update ''serviceUrl'' (JStr stripped) []))
                  else Inr []) of
              Inl e \<Rightarrow> Inl e
            | Inr results1 \<Rightarrow> Inr (overlaySteps ext results1))"
  unfolding readOptionsFromExternalConfig_def overlaySteps_def Let_def assms js_prop.simps(1)
  by simp

lemma readOptions_map_of:
  assumes e: "readExternalSources serviceName = JObj ext"
    and "\<not> truthy (obj_get ext ''url'') \<or> (\<exists>s. obj_get ext ''url'' = JStr s)"
  shows "\<exists>results. readOptionsFromExternalConfig readExternalSources serviceName = Inr results
           \<and> map_of results = externalOverride ext"
proof (cases "truthy (obj_get ext ''url'')")
  case True
  with assms(2) obtain s where s: "obj_get ext ''url'' = JStr s" "s \<noteq> []" by auto
  then have u: "externalOverride ext ''serviceUrl'' = Some (JStr (stripTrailingSlash s))"
    by (simp add: externalOverride_def)
  have r: "readOptionsFromExternalConfig readExternalSources serviceName =
             Inr (overlaySteps ext [(''serviceUrl'', JStr (stripTrailingSlash s))])"
    using s e by (simp add: readOptions_overlaySteps [of readExternalSources serviceName ext]
        stripTrailingSlash_any_def)
  have "map_of [(''serviceUrl'', JStr (stripTrailingSlash s))] =
          (\<lambda>key. if key = ''serviceUrl'' then Some (JStr (stripTrailingSlash s)) else None)"
    by (simp add: fun_eq_iff)
  from overlaySteps_map_of [OF this u] r show ?thesis by (auto simp: fun_eq_iff)
next
  case False
  then have u: "externalOverride ext ''serviceUrl'' = None"
    by (cases "obj_get ext ''url''") (auto simp: externalOverride_def)
  have r: "readOptionsFromExternalConfig readExternalSources serviceName =
             Inr (overlaySteps ext [])"
    using False e by (simp add: readOptions_overlaySteps [of readExternalSources serviceName ext])
  have "map_of ([] :: jsobj) = (\<lambda>key. if key = ''serviceUrl'' then None else None)"
    by (simp add: fun_eq_iff)
  from overlaySteps_map_of [OF this u] r show ?thesis by (auto simp: fun_eq_iff)
qed

lemma configureService_result:
  assumes "truthy serviceName"
    and "readExternalSources serviceName = JObj ext"
    and "\<not> truthy (obj_get ext ''url'') \<or> (\<exists>s. obj_get ext ''url'' = JStr s)"
  shows "\<exists>this'. configureService readExternalSources serviceName this = (Inr this', [])
           \<and> authenticator this' = authenticator this
           \<and> (\<forall>key. obj_get (baseOptions this') key =
                 (case externalOverride ext key of
                    Some v \<Rightarrow> v
                  | None \<Rightarrow> obj_get (baseOptions this) key))"
proof -
  from assms(2,3) readOptions_map_of [of readExternalSources serviceName ext] obtain results where
    r: "readOptionsFromExternalConfig readExternalSources serviceName = Inr results"
    and m: "map_of results = externalOverride ext" by blast
  let ?this' = "this \<lparr> baseOptions := Object_assign (baseOptions this) results,
                      requestWrapperInstance := Object_assign (baseOptions this) results \<rparr>"
  from assms(1) r have "configureService readExternalSources serviceName this = (Inr ?this', [])"
    by (simp add: configureService_def Let_def)
  moreover have "\<forall>key. obj_get (baseOptions ?this') key =
                 (case externalOverride ext key of
                    Some v \<Rightarrow> v
                  | None \<Rightarrow> obj_get (baseOptions this) key)"
    by (simp add: obj_get_Object_assign_map_of m)
  ultimately show ?thesis by auto
qed

text \<open>
  C5 (as amended). \<^verbatim>\<open>configureService\<close> throws the configuration error, and logs
  it, when the service name is missing or empty. Otherwise, for every external
  configuration record whose \<^verbatim>\<open>url\<close> is a string or falsy, it succeeds, and each
  key of the normalized options then holds the record's contribution where there
  is one (\<open>externalOverride\<close>: \<^verbatim>\<open>url\<close> as \<^verbatim>\<open>serviceUrl\<close> after stripping when
  it is a non-empty string, \<^verbatim>\<open>disableSsl\<close> and \<^verbatim>\<open>enableGzip\<close> only when they
  are \<^verbatim>\<open>true\<close>, \<^verbatim>\<open>enableRetries\<close>, \<^verbatim>\<open>maxRetries\<close> and \<^verbatim>\<open>retryInterval\<close> when
  they are defined) and its former value everywhere else; the authenticator is
  unchanged.
\<close>

theorem configureService_overlay:
  "(\<not> truthy serviceName \<longrightarrow>
      configureService readExternalSources serviceName this =
        (Inl (Error serviceNameRequired), [(Severe, serviceNameRequired)]))
   \<and> (truthy serviceName \<and> readExternalSources serviceName = JObj ext
        \<and> (\<not> truthy (obj_get ext ''url'') \<or> (\<exists>s. obj_get ext ''url'' = JStr s)) \<longrightarrow>
      (\<exists>this'. configureService readExternalSources serviceName this = (Inr this', [])
         \<and> authenticator this' = authenticator this
         \<and> (\<forall>key. obj_get (baseOptions this') key =
               (case externalOverride ext key of
                  Some v \<Rightarrow> v
                | None \<Rightarrow> obj_get (baseOptions this) key))))"
  using configureService_result [of serviceName readExternalSources ext this]
  by (auto simp: configureService_def)

text \<open>
  The witness: a record with a URL, \<^verbatim>\<open>disableSsl: false\<close> and \<^verbatim>\<open>maxRetries: 3\<close>
  laid over \<open>svc0\<close>, and a call without a service name.
\<close>

theorem configureService_overlay_witness:
  "configureService (\<lambda>name. JObj [(''url'', JStr ''https://ext/''), (''disableSsl'', JBool False),
                                     (''maxRetries'', JNum 3)]) (JStr ''my-service'') svc0
     = (Inr (svc0 \<lparr> baseOptions :=
                      [(''serviceUrl'', JStr ''https://ext''),
                       (''disableSslVerification'', JBool True),
                       (''version'', JStr ''2021-01-01''), (''maxRetries'', JNum 3)],
                     requestWrapperInstance :=
                      [(''serviceUrl'', JStr ''https://ext''),
                       (''disableSslVerification'', JBool True),
                       (''version'', JStr ''2021-01-01''), (''maxRetries'', JNum 3)] \<rparr>), [])
   \<and> configureService (\<lambda>name. JObj []) (JStr []) svc0
     = (Inl (Error serviceNameRequired), [(Severe, serviceNameRequired)])"
proof -
  let ?ext = "[(''url'', JStr ''https://ext/''), (''disableSsl'', JBool False), (''maxRetries'', JNum 3)]"
  have h: "truthy (JStr ''my-service'') \<and> (\<lambda>name::jsval. JObj ?ext) (JStr ''my-service'') = JObj ?ext
        \<and> (\<not> truthy (obj_get ?ext ''url'') \<or> (\<exists>s. obj_get ?ext ''url'' = JStr s))"
    by (simp add: obj_get_def)
  have n: "\<not> truthy (JStr [])" by simp
  from h n
    configureService_overlay [of "JStr ''my-service''" "\<lambda>name. JObj ?ext" svc0 ?ext]
    configureService_overlay [of "JStr []" "\<lambda>name. JObj []" svc0 "[]"]
  show ?thesis
    by (simp add: configureService_def readOptionsFromExternalConfig_def svc0_def Object_assign_def
      Object_keys_def obj_get_def stripTrailingSlash_any_def stripTrailingSlash_def Let_def
      assignIf_def)
qed

text \<open>
  C5 as it was stated fails: the external record holds \<^verbatim>\<open>disableSsl\<close> (with the
  value \<^verbatim>\<open>false\<close>), a recognized property that is present, and the service's
  \<^verbatim>\<open>disableSslVerification\<close> is not overwritten: it stays \<^verbatim>\<open>true\<close>.
\<close>

theorem configureService_overlay_counterexample:
  "configureService (\<lambda>name. JObj [(''disableSsl'', JBool False)]) (JStr ''my-service'') svc0
     = (Inr (svc0 \<lparr> requestWrapperInstance := baseOptions svc0 \<rparr>), [])
   \<and> obj_get (baseOptions svc0) ''disableSslVerification'' = JBool True"
  by (simp add: configureService_def readOptionsFromExternalConfig_def svc0_def Object_assign_def
      Object_keys_def obj_get_def Let_def assignIf_def)

section \<open>Results about the service URL\<close>

lemma stripTrailingSlash_single:
  assumes "\<not> suffix ''//'' url"
  shows "\<not> suffix ''/'' (stripTrailingSlash url)"
proof (cases url rule: rev_cases)
  case Nil
  then show ?thesis by (simp add: stripTrailingSlash_def)
next
  case (snoc ys c)
  show ?thesis
  proof (cases "c = CHR ''/''")
    case True
    with snoc assms have "\<not> suffix ''/'' ys"
      by (auto simp: suffix_def)
    with snoc True show ?thesis by (simp add: stripTrailingSlash_def)
  next
    case False
    with snoc show ?thesis by (auto simp: stripTrailingSlash_def suffix_def)
  qed
qed

lemma stripTrailingSlash_examples:
  "stripTrailingSlash ''https://host/'' = ''https://host''"
  "stripTrailingSlash ''https://host'' = ''https://host''"
  by (simp_all add: stripTrailingSlash_def)

lemma setServiceUrl_string:
  "url \<noteq> [] \<Longrightarrow>
   setServiceUrl (JStr url) this =
     Inr (this \<lparr> baseOptions :=
                  AList.update ''serviceUrl'' (JStr (stripTrailingSlash url)) (baseOptions this) \<rparr>)"
  by (simp add: setServiceUrl_def stripTrailingSlash_any_def)

lemma BaseService_new_serviceUrl:
  assumes "url \<noteq> []"
    and "obj_get userOptions ''serviceUrl'' = JStr url
         \<or> (\<not> truthy (obj_get userOptions ''serviceUrl'') \<and> obj_get userOptions ''url'' = JStr url)"
    and "BaseService_new isInstance dflt checkCredentials userOptions = (Inr this, log)"
  shows "obj_get (baseOptions this) ''serviceUrl'' = JStr (stripTrailingSlash url)"
proof -
  define options1 where "options1 =
     (if truthy (obj_get userOptions ''url'') \<and> \<not> truthy (obj_get userOptions ''serviceUrl'')
      then AList.update ''serviceUrl'' (obj_get userOptions ''url'') userOptions
      else userOptions)"
  have s: "obj_get options1 ''serviceUrl'' = JStr url"
    using assms(1,2) by (auto simp: options1_def obj_get_update)
  from assms(3) s assms(1) obtain options2 where
    "baseOptions this =
       Object_assign (Object_assign [(''qs'', JObj []), (''serviceUrl'', dflt)] options2)
         [(''serviceUrl'', JStr (stripTrailingSlash url))]"
    unfolding BaseService_new_def Let_def options1_def [symmetric]
    by (auto simp: stripTrailingSlash_any_def split: if_splits option.splits)
  then show ?thesis
    by (simp add: obj_get_Object_assign Object_keys_def obj_get_Cons)
qed

lemma configureService_url:
  assumes "url \<noteq> []" "js_prop (readExternalSources serviceName) ''url'' = JStr url"
    and "configureService readExternalSources serviceName this = (Inr this', log)"
  shows "obj_get (baseOptions this') ''serviceUrl'' = JStr (stripTrailingSlash url)"
proof -
  from assms(2) obtain ext where e: "readExternalSources serviceName = JObj ext"
    by (cases "readExternalSources serviceName") auto
  with assms(2) have u: "obj_get ext ''url'' = JStr url" by simp
  from assms(3) have t: "truthy serviceName"
    by (auto simp: configureService_def split: if_splits)
  from u have "\<not> truthy (obj_get ext ''url'') \<or> (\<exists>s. obj_get ext ''url'' = JStr s)" by simp
  with t e configureService_result [of serviceName readExternalSources ext this] assms(3) u assms(1)
  show ?thesis by (auto simp: externalOverride_def)
qed

lemma BaseService_new_example:
  "BaseService_new True JUndefined (\<lambda>opts names. None) userOptions0 = (Inr created0, [])"
  by (simp add: BaseService_new_def userOptions0_def created0_def Let_def obj_get_def
      stripTrailingSlash_any_def stripTrailingSlash_def Object_assign_def Object_keys_def)

text \<open>
  C3 (as amended). For every non-empty string that does not end in two slashes, the
  \<^verbatim>\<open>serviceUrl\<close> stored in the normalized options is the string with its one
  trailing slash removed, and so does not end in a slash: after \<^verbatim>\<open>setServiceUrl\<close>,
  after a construction that succeeds (the string given as \<^verbatim>\<open>serviceUrl\<close>, or as
  the legacy \<^verbatim>\<open>url\<close> when \<^verbatim>\<open>serviceUrl\<close> is absent or empty), and after a
  \<^verbatim>\<open>configureService\<close> that succeeds on an external record with that \<^verbatim>\<open>url\<close>.
\<close>

theorem serviceUrl_no_trailing_slash:
  assumes "url \<noteq> []" and "\<not> suffix ''//'' url"
  shows "\<not> suffix ''/'' (stripTrailingSlash url)
    \<and> (\<exists>this'. setServiceUrl (JStr url) this = Inr this'
          \<and> obj_get (baseOptions this') ''serviceUrl'' = JStr (stripTrailingSlash url))
    \<and> (\<forall>userOptions created log.
          (obj_get userOptions ''serviceUrl'' = JStr url
           \<or> (\<not> truthy (obj_get userOptions ''serviceUrl'') \<and> obj_get userOptions ''url'' = JStr url))
          \<and> BaseService_new isInstance dflt checkCredentials userOptions = (Inr created, log) \<longrightarrow>
          obj_get (baseOptions created) ''serviceUrl'' = JStr (stripTrailingSlash url))
    \<and> (\<forall>serviceName configured log.
          js_prop (readExternalSources serviceName) ''url'' = JStr url
          \<and> configureService readExternalSources serviceName this = (Inr configured, log) \<longrightarrow>
          obj_get (baseOptions configured) ''serviceUrl'' = JStr (stripTrailingSlash url))"
proof -
  have a: "\<not> suffix ''/'' (stripTrailingSlash url)"
    using assms(2) by (rule stripTrailingSlash_single)
  have b: "\<exists>this'. setServiceUrl (JStr url) this = Inr this'
          \<and> obj_get (baseOptions this') ''serviceUrl'' = JStr (stripTrailingSlash url)"
    using assms(1) by (simp add: setServiceUrl_string obj_get_update)
  have c: "\<forall>userOptions created log.
          (obj_get userOptions ''serviceUrl'' = JStr url
           \<or> (\<not> truthy (obj_get userOptions ''serviceUrl'') \<and> obj_get userOptions ''url'' = JStr url))
          \<and> BaseService_new isInstance dflt checkCredentials userOptions = (Inr created, log) \<longrightarrow>
          obj_get (baseOptions created) ''serviceUrl'' = JStr (stripTrailingSlash url)"
    using BaseService_new_serviceUrl [OF assms(1)] by blast
  have d: "\<forall>serviceName configured log.
          js_prop (readExternalSources serviceName) ''url'' = JStr url
          \<and> configureService readExternalSources serviceName this = (Inr configured, log) \<longrightarrow>
          obj_get (baseOptions configured) ''serviceUrl'' = JStr (stripTrailingSlash url)"
    using configureService_url [OF assms(1)] by blast
  from a b c d show ?thesis by blast
qed

text \<open>
  The witness: the URL \<^verbatim>\<open>https://host/\<close> given to \<^verbatim>\<open>setServiceUrl\<close>, to the
  constructor under the legacy name, and to \<^verbatim>\<open>configureService\<close> by the external
  record.
\<close>

theorem serviceUrl_no_trailing_slash_witness:
  "\<not> suffix ''/'' (stripTrailingSlash ''https://host/'')
   \<and> (\<exists>this'. setServiceUrl (JStr ''https://host/'') svc0 = Inr this'
          \<and> obj_get (baseOptions this') ''serviceUrl'' = JStr ''https://host'')
   \<and> BaseService_new True JUndefined (\<lambda>opts names. None) userOptions0 = (Inr created0, [])
   \<and> obj_get (baseOptions created0) ''serviceUrl'' = JStr ''https://host''
   \<and> (\<exists>configured.
         configureService (\<lambda>name. JObj [(''url'', JStr ''https://host/'')]) (JStr ''my-service'') svc0
           = (Inr configured, [])
         \<and> obj_get (baseOptions configured) ''serviceUrl'' = JStr ''https://host'')"
proof -
  let ?res = "\<lambda>name::jsval. JObj [(''url'', JStr ''https://host/'')]"
  have h: "''https://host/'' \<noteq> [] \<and> \<not> suffix ''//'' ''https://host/''"
    by (simp add: suffix_def)
  have u: "\<not> truthy (obj_get userOptions0 ''serviceUrl'')
           \<and> obj_get userOptions0 ''url'' = JStr ''https://host/''"
    by (simp add: userOptions0_def obj_get_def)
  have s: "stripTrailingSlash ''https://host/'' = ''https://host''"
    by (simp add: stripTrailingSlash_def)
  have p: "js_prop (?res (JStr ''my-service'')) ''url'' = JStr ''https://host/''"
    by (simp add: obj_get_def)
  have "\<exists>configured. configureService ?res (JStr ''my-service'') svc0 = (Inr configured, [])"
    by (simp add: configureService_def readOptionsFromExternalConfig_def Let_def obj_get_def
        stripTrailingSlash_any_def assignIf_def)
  with h u p BaseService_new_example
    serviceUrl_no_trailing_slash [of "''https://host/''" svc0 True JUndefined
      "\<lambda>opts names. None" ?res]
  show ?thesis unfolding s by blast
qed

text \<open>
  C3 as it was stated fails: the pattern removes one slash only, so a URL that ends
  in two slashes is stored with one.
\<close>

theorem serviceUrl_no_trailing_slash_counterexample:
  "setServiceUrl (JStr ''https://host//'') svc0 =
     Inr (svc0 \<lparr> baseOptions := [(''serviceUrl'', JStr ''https://host/''),
                                  (''disableSslVerification'', JBool True),
                                  (''version'', JStr ''2021-01-01'')] \<rparr>)
   \<and> suffix ''/'' ''https://host/''"
  by (simp add: setServiceUrl_def stripTrailingSlash_any_def stripTrailingSlash_def svc0_def
      suffix_def)

section \<open>Results about the authenticated dispatch\<close>

lemma serviceUrl_read:
  "(if truthy (js_prop parameters ''defaultOptions'')
    then js_prop (js_prop parameters ''defaultOptions'') ''serviceUrl''
    else js_prop parameters ''defaultOptions'') = JStr s \<and> s \<noteq> []
   \<longleftrightarrow> requestServiceUrl parameters = JStr s \<and> s \<noteq> []"
  by (cases "js_prop parameters ''defaultOptions''") (auto simp: requestServiceUrl_def)

lemma nonempty_string_iff:
  "(truthy v \<and> typeof v = ''string'') \<longleftrightarrow> (\<exists>s. v = JStr s \<and> s \<noteq> [])"
  by (cases v) auto

text \<open>
  C4. For every request description (a value other than \<^verbatim>\<open>undefined\<close> and
  \<^verbatim>\<open>null\<close>) whose \<^verbatim>\<open>defaultOptions\<close> carries no non-empty string
  \<^verbatim>\<open>serviceUrl\<close>, \<^verbatim>\<open>createRequest\<close> returns a promise rejected with the error
  "The service URL is required": it does not throw, and it calls neither the
  authenticator nor the transport (the list of calls is empty).
\<close>

theorem createRequest_rejects_without_serviceUrl:
  assumes "parameters \<noteq> JUndefined" and "parameters \<noteq> JNull"
    and "\<not> (\<exists>s. requestServiceUrl parameters = JStr s \<and> s \<noteq> [])"
  shows "createRequest authenticate sendRequest parameters =
           (Inr (Rejected (Error ''The service URL is required'')), [])"
proof -
  let ?v = "(if truthy (js_prop parameters ''defaultOptions'')
    then js_prop (js_prop parameters ''defaultOptions'') ''serviceUrl''
    else js_prop parameters ''defaultOptions'')"
  from assms(3) serviceUrl_read [of parameters] have "\<not> (\<exists>s. ?v = JStr s \<and> s \<noteq> [])" by blast
  with nonempty_string_iff [of ?v] have "\<not> truthy ?v \<or> typeof ?v \<noteq> ''string''" by blast
  with assms(1,2) show ?thesis
    unfolding createRequest_def Let_def by simp
qed

text \<open>
  The witness: a request description without \<^verbatim>\<open>defaultOptions\<close>, one whose
  \<^verbatim>\<open>serviceUrl\<close> is the empty string, and one whose \<^verbatim>\<open>serviceUrl\<close> is a number,
  with an authenticator and a transport that would succeed.
\<close>

theorem createRequest_rejects_without_serviceUrl_witness:
  "createRequest (\<lambda>d. Fulfilled d) (\<lambda>p. Fulfilled p) (JObj [(''options'', JObj [])]) =
     (Inr (Rejected (Error ''The service URL is required'')), [])
   \<and> createRequest (\<lambda>d. Fulfilled d) (\<lambda>p. Fulfilled p)
        (JObj [(''defaultOptions'', JObj [(''serviceUrl'', JStr [])])]) =
     (Inr (Rejected (Error ''The service URL is required'')), [])
   \<and> createRequest (\<lambda>d. Fulfilled d) (\<lambda>p. Fulfilled p)
        (JObj [(''defaultOptions'', JObj [(''serviceUrl'', JNum 8080)])]) =
     (Inr (Rejected (Error ''The service URL is required'')), [])"
proof -
  have a: "\<not> (\<exists>s. requestServiceUrl (JObj [(''options'', JObj [])]) = JStr s \<and> s \<noteq> [])"
    by (simp add: requestServiceUrl_def obj_get_def)
  have b: "\<not> (\<exists>s. requestServiceUrl (JObj [(''defaultOptions'', JObj [(''serviceUrl'', JStr [])])])
                 = JStr s \<and> s \<noteq> [])"
    by (simp add: requestServiceUrl_def obj_get_def)
  have c: "\<not> (\<exists>s. requestServiceUrl (JObj [(''defaultOptions'', JObj [(''serviceUrl'', JNum 8080)])])
                 = JStr s \<and> s \<noteq> [])"
    by (simp add: requestServiceUrl_def obj_get_def)
  have a': "createRequest (\<lambda>d. Fulfilled d) (\<lambda>p. Fulfilled p) (JObj [(''options'', JObj [])]) =
     (Inr (Rejected (Error ''The service URL is required'')), [])"
    by (rule createRequest_rejects_without_serviceUrl [OF _ _ a]) simp_all
  have b': "createRequest (\<lambda>d. Fulfilled d) (\<lambda>p. Fulfilled p)
        (JObj [(''defaultOptions'', JObj [(''serviceUrl'', JStr [])])]) =
     (Inr (Rejected (Error ''The service URL is required'')), [])"
    by (rule createRequest_rejects_without_serviceUrl [OF _ _ b]) simp_all
  have c': "createRequest (\<lambda>d. Fulfilled d) (\<lambda>p. Fulfilled p)
        (JObj [(''defaultOptions'', JObj [(''serviceUrl'', JNum 8080)])]) =
     (Inr (Rejected (Error ''The service URL is required'')), [])"
    by (rule createRequest_rejects_without_serviceUrl [OF _ _ c]) simp_all
  from a' b' c' show ?thesis by (intro conjI)
qed

text \<open>
  C2. For every request description that \<^verbatim>\<open>createRequest\<close> accepts (one that
  carries a non-empty string service URL): whenever the transport's
  \<^verbatim>\<open>sendRequest\<close> is among the calls made, the authenticator's promise was
  fulfilled and the calls are \<^verbatim>\<open>authenticate\<close> followed by \<^verbatim>\<open>sendRequest\<close>; when
  \<^verbatim>\<open>authenticate\<close> is fulfilled the result is the transport's promise; and when
  \<^verbatim>\<open>authenticate\<close> is rejected, the result is a promise rejected with the same
  error and the only call made is \<^verbatim>\<open>authenticate\<close>.
\<close>

theorem createRequest_authenticates_first:
  assumes "parameters \<noteq> JUndefined" and "parameters \<noteq> JNull"
    and "requestServiceUrl parameters = JStr s" and "s \<noteq> []"
  shows "(\<forall>sent. SendRequest sent \<in> set (snd (createRequest authenticate sendRequest parameters)) \<longrightarrow>
            (\<exists>authenticated.
               authenticate (js_prop parameters ''defaultOptions'') = Fulfilled authenticated
               \<and> snd (createRequest authenticate sendRequest parameters) =
                   [Authenticate (js_prop parameters ''defaultOptions''), SendRequest sent]))
         \<and> (\<forall>authenticated.
               authenticate (js_prop parameters ''defaultOptions'') = Fulfilled authenticated \<longrightarrow>
               createRequest authenticate sendRequest parameters =
                 (Inr (sendRequest (js_set parameters ''defaultOptions'' authenticated)),
                  [Authenticate (js_prop parameters ''defaultOptions''),
                   SendRequest (js_set parameters ''defaultOptions'' authenticated)]))
         \<and> (\<forall>e. authenticate (js_prop parameters ''defaultOptions'') = Rejected e \<longrightarrow>
               createRequest authenticate sendRequest parameters =
                 (Inr (Rejected e), [Authenticate (js_prop parameters ''defaultOptions'')]))"
proof -
  let ?d = "js_prop parameters ''defaultOptions''"
  let ?v = "(if truthy ?d then js_prop ?d ''serviceUrl'' else ?d)"
  from assms(3,4) serviceUrl_read [of parameters s] have "?v = JStr s \<and> s \<noteq> []" by blast
  then have ok: "\<not> (\<not> truthy ?v \<or> typeof ?v \<noteq> ''string'')" by simp
  have c: "createRequest authenticate sendRequest parameters =
        (case authenticate ?d of
           Fulfilled authenticated \<Rightarrow>
             (let sent = js_set parameters ''defaultOptions'' authenticated
              in (Inr (sendRequest sent), [Authenticate ?d, SendRequest sent]))
         | Rejected e \<Rightarrow> (Inr (Rejected e), [Authenticate ?d])
         | Pending \<Rightarrow> (Inr Pending, [Authenticate ?d]))"
    using assms(1,2) ok unfolding createRequest_def Let_def by simp
  show ?thesis
    unfolding c by (cases "authenticate ?d") (auto simp: Let_def)
qed

text \<open>
  The witness: \<open>request0\<close> with an authenticator that rejects, and with one that
  adds a header and is fulfilled.
\<close>

theorem createRequest_authenticates_first_witness:
  "createRequest (\<lambda>d. Rejected (Error ''invalid credentials'')) (\<lambda>p. Fulfilled p) request0 =
     (Inr (Rejected (Error ''invalid credentials'')),
      [Authenticate (JObj [(''serviceUrl'', JStr ''https://host'')])])
   \<and> createRequest (\<lambda>d. Fulfilled (js_set d ''headers'' (JObj [(''Authorization'', JStr ''Bearer t'')])))
        (\<lambda>p. Fulfilled (JStr ''response'')) request0 =
     (Inr (Fulfilled (JStr ''response'')),
      [Authenticate (JObj [(''serviceUrl'', JStr ''https://host'')]),
       SendRequest
         (JObj [(''options'', JObj [(''method'', JStr ''GET'')]),
                (''defaultOptions'',
                 JObj [(''serviceUrl'', JStr ''https://host''),
                       (''headers'', JObj [(''Authorization'', JStr ''Bearer t'')])])])])"
proof -
  have n: "request0 \<noteq> JUndefined" "request0 \<noteq> JNull"
    by (simp_all add: request0_def)
  have u: "requestServiceUrl request0 = JStr ''https://host''" "''https://host'' \<noteq> []"
    by (simp_all add: requestServiceUrl_def request0_def obj_get_def)
  have d: "js_prop request0 ''defaultOptions'' = JObj [(''serviceUrl'', JStr ''https://host'')]"
    by (simp add: request0_def obj_get_def)
  let ?reject = "\<lambda>d::jsval. (Rejected (Error ''invalid credentials'') :: jsval promise)"
  let ?accept = "\<lambda>d. Fulfilled (js_set d ''headers'' (JObj [(''Authorization'', JStr ''Bearer t'')]))"
  let ?send = "\<lambda>p::jsval. Fulfilled (JStr ''response'')"
  note rejected = createRequest_authenticates_first [OF n u, of ?reject "\<lambda>p. Fulfilled p",
      THEN conjunct2, THEN conjunct2, rule_format]
  note fulfilled = createRequest_authenticates_first [OF n u, of ?accept ?send,
      THEN conjunct2, THEN conjunct1, rule_format]
  have r: "createRequest ?reject (\<lambda>p. Fulfilled p) request0 =
     (Inr (Rejected (Error ''invalid credentials'')),
      [Authenticate (js_prop request0 ''defaultOptions'')])"
    by (rule rejected) (rule refl)
  have f: "createRequest ?accept ?send request0 =
     (Inr (Fulfilled (JStr ''response'')),
      [Authenticate (js_prop request0 ''defaultOptions''),
       SendRequest (js_set request0 ''defaultOptions''
         (js_set (js_prop request0 ''defaultOptions'') ''headers''
            (JObj [(''Authorization'', JStr ''Bearer t'')])))])"
    by (rule fulfilled) (rule refl)
  from r f show ?thesis unfolding d by (simp add: request0_def)
qed

section \<open>Results about parameter validation\<close>



lemma js_get_own:
  "key \<notin> set (Object_keys ObjectPrototype) \<Longrightarrow> js_get obj key = obj_get obj key"
proof -
  assume "key \<notin> set (Object_keys ObjectPrototype)"
  then have "map_of ObjectPrototype key = None"
    by (simp add: Object_keys_def map_of_eq_None_iff)
  then show ?thesis by (simp add: js_get_def obj_get_def split: option.splits)
qed




section \<open>Results about file parameters\<close>

lemma buildRequestFileObject_nested_options:
  assumes "data fileParam = FObject v (Some nested)" "truthyFile v"
    "filename fileParam = Some f" "f \<noteq> []" "contentType fileParam = Some c" "c \<noteq> []"
  shows "options (buildRequestFileObject libs fileParam) =
           \<lparr> filename = Some (basename libs f), contentType = Some c \<rparr>"
  using assms
  by (cases v) (simp_all add: buildRequestFileObject_def Let_def js_or_def pathToString_def)

lemma buildRequestFileObject_plain_buffer:
  "buildRequestFileObject libs \<lparr> filename = None, contentType = None, data = FBuffer b \<rparr> =
     \<lparr> val = FBuffer b,
       options = \<lparr> filename = Some ''_'',
                   contentType = (if truthyString (fromBuffer libs b) then fromBuffer libs b
                                  else Some ''application/octet-stream'') \<rparr> \<rparr>"
  by (simp add: buildRequestFileObject_def Let_def)

text \<open>
  C6 (the code at the failing input). The file parameter names the file
  \<^verbatim>\<open>report.txt\<close> with content type \<^verbatim>\<open>text/plain\<close>, and its data is a
  FileObject that has a value and no \<^verbatim>\<open>options\<close>. The result reuses the value,
  but the explicit metadata is lost: the file name is the placeholder \<^verbatim>\<open>_\<close> and
  the content type is whatever sniffing the buffer gives, or
  \<^verbatim>\<open>application/octet-stream\<close>.
\<close>

theorem buildRequestFileObject_drops_explicit_metadata:
  "buildRequestFileObject libs (explicitNameParam b) =
     \<lparr> val = FBuffer b,
       options = \<lparr> filename = Some ''_'',
                   contentType = (if truthyString (fromBuffer libs b) then fromBuffer libs b
                                  else Some ''application/octet-stream'') \<rparr> \<rparr>"
  by (simp add: buildRequestFileObject_def explicitNameParam_def Let_def)

section \<open>Results about the parameterized service URL\<close>

lemma split_first_Some:
  "split_first pat s = Some (front, back) \<Longrightarrow> s = front @ pat @ back"
proof (induction s arbitrary: front)
  case Nil
  then show ?case by (simp split: if_splits)
next
  case (Cons c s)
  show ?case
  proof (cases "prefix pat (c # s)")
    case True
    then have "c # s = pat @ drop (length pat) (c # s)"
      by (metis append_eq_conv_conj prefixE)
    with True Cons.prems show ?thesis by simp
  next
    case False
    with Cons.prems obtain f where f: "split_first pat s = Some (f, back)" "front = c # f"
      by (auto split: option.splits)
    from Cons.IH [OF f(1)] f(2) show ?thesis by simp
  qed
qed

lemma split_first_None: "split_first pat s = None \<Longrightarrow> \<not> sublist pat s"
proof (induction s)
  case Nil
  then show ?case by (simp split: if_splits)
next
  case (Cons c s)
  then show ?case
    by (auto simp: sublist_Cons_right split: if_splits option.splits)
qed

lemma split_first_leftmost:
  "split_first pat s = Some (front, back) \<Longrightarrow> s = f' @ pat @ b' \<Longrightarrow> length front \<le> length f'"
proof (induction s arbitrary: front f')
  case Nil
  then show ?case by (simp split: if_splits)
next
  case (Cons c s)
  show ?case
  proof (cases "prefix pat (c # s)")
    case True
    with Cons.prems(1) show ?thesis by simp
  next
    case False
    with Cons.prems(1) obtain f where f: "split_first pat s = Some (f, back)" "front = c # f"
      by (auto split: option.splits)
    from False Cons.prems(2) have "f' \<noteq> []" by (auto simp: prefix_def)
    with Cons.prems(2) obtain f'' where f'': "f' = c # f''" "s = f'' @ pat @ b'"
      by (cases f') auto
    from Cons.IH [OF f(1) f''(2)] f(2) f''(1) show ?thesis by simp
  qed
qed

lemma getSubstitution_literal:
  "CHR ''$'' \<notin> set r \<Longrightarrow> getSubstitution m b a r = r"
  by (induction m b a r rule: getSubstitution.induct) auto

lemma js_replace_literal:
  assumes "CHR ''$'' \<notin> set r"
  shows "js_replace s pat r =
           (case split_first pat s of None \<Rightarrow> s | Some (front, back) \<Rightarrow> front @ r @ back)"
  using assms by (simp add: js_replace_def getSubstitution_literal split: option.splits)

lemma constructServiceUrl_literal:
  assumes names: "set (map fst provided) \<subseteq> set (map fst defaults)"
    and plain: "\<forall>v \<in> snd ` set defaults \<union> snd ` set provided. CHR ''$'' \<notin> set v"
  shows "constructServiceUrl template defaults (Some provided) =
           Inr (fold (\<lambda>(name, defaultValue) formattedUrl.
                        (case split_first (placeholder name) formattedUrl of
                           None \<Rightarrow> formattedUrl
                         | Some (front, back) \<Rightarrow>
                             front
                             @ (case map_of provided name of
                                  Some providedValue \<Rightarrow> providedValue
                                | None \<Rightarrow> defaultValue)
                             @ back))
                  defaults template)"
proof -
  have none: "find (\<lambda>name. name \<notin> set (map fst defaults)) (map fst provided) = None"
    using names by (auto simp: find_None_iff)
  have step: "\<And>name d url. (name, d) \<in> set defaults \<Longrightarrow>
      js_replace url (placeholder name)
        (case map_of provided name of Some pv \<Rightarrow> pv | None \<Rightarrow> d) =
      (case split_first (placeholder name) url of
         None \<Rightarrow> url
       | Some (front, back) \<Rightarrow>
           front @ (case map_of provided name of Some pv \<Rightarrow> pv | None \<Rightarrow> d) @ back)"
  proof -
    fix name d url
    assume m: "(name, d) \<in> set defaults"
    have "CHR ''$'' \<notin> set (case map_of provided name of Some pv \<Rightarrow> pv | None \<Rightarrow> d)"
    proof (cases "map_of provided name")
      case None
      with m plain show ?thesis by force
    next
      case (Some pv)
      then have "(name, pv) \<in> set provided" by (rule map_of_SomeD)
      with Some plain show ?thesis by force
    qed
    then show "js_replace url (placeholder name)
        (case map_of provided name of Some pv \<Rightarrow> pv | None \<Rightarrow> d) =
      (case split_first (placeholder name) url of
         None \<Rightarrow> url
       | Some (front, back) \<Rightarrow>
           front @ (case map_of provided name of Some pv \<Rightarrow> pv | None \<Rightarrow> d) @ back)"
      by (rule js_replace_literal)
  qed
  have "fold (\<lambda>(name, defaultValue) formattedUrl.
               js_replace formattedUrl (placeholder name)
                 (case map_of provided name of Some pv \<Rightarrow> pv | None \<Rightarrow> defaultValue))
          defaults template =
        fold (\<lambda>(name, defaultValue) formattedUrl.
                (case split_first (placeholder name) formattedUrl of
                   None \<Rightarrow> formattedUrl
                 | Some (front, back) \<Rightarrow>
                     front @ (case map_of provided name of Some pv \<Rightarrow> pv | None \<Rightarrow> defaultValue)
                     @ back))
          defaults template"
    by (rule fold_cong) (auto simp: step)
  with none show ?thesis
    by (simp add: constructServiceUrl_def Let_def)
qed

lemma constructServiceUrl_example:
  "constructServiceUrl ''{scheme}://x.com/{ver}'' [(''scheme'', ''https''), (''ver'', ''v1'')] None
     = Inr ''https://x.com/v1''"
  by (simp add: constructServiceUrl_def js_replace_def placeholder_def Let_def)

lemma constructServiceUrl_first_occurrence_only:
  "constructServiceUrl ''{a}/{a}'' [(''a'', ''v'')] (Some [(''a'', ''w'')]) = Inr ''w/{a}''"
  by (simp add: constructServiceUrl_def js_replace_def placeholder_def Let_def)

text \<open>
  C9 (the code at the failing input). The default value of \<^verbatim>\<open>host\<close> is the
  string \<^verbatim>\<open>a$&b\<close>. \<^verbatim>\<open>String.prototype.replace\<close> reads \<^verbatim>\<open>$&\<close> in its second
  argument as the matched text, so the placeholder is replaced by \<^verbatim>\<open>a{host}b\<close>
  and not by the value.
\<close>

theorem constructServiceUrl_dollar_pattern:
  "constructServiceUrl ''https://{host}/v1'' [(''host'', ''a$&b'')] None
     = Inr ''https://a{host}b/v1''"
  by (simp add: constructServiceUrl_def js_replace_def placeholder_def Let_def)

lemma first_stop_unique:
  "c \<notin> set xs \<Longrightarrow> c \<notin> set ys \<Longrightarrow> xs @ c # r = ys @ c # r' \<Longrightarrow> xs = ys"
proof (induction xs arbitrary: ys)
  case Nil
  then show ?case by (cases ys) auto
next
  case (Cons a xs)
  then show ?case by (cases ys) auto
qed

lemma placeholder_prefix_eq:
  assumes "braceFree x" "braceFree k" "placeholder x @ v = placeholder k @ a"
  shows "x = k"
proof -
  from assms(3) have "x @ CHR ''}'' # v = k @ CHR ''}'' # a"
    by (simp add: placeholder_def)
  with assms(1,2) show ?thesis
    using first_stop_unique [of "CHR ''}''" x k v a] by (simp add: braceFree_def)
qed

lemma placeholder_split:
  assumes "braceFree k" "placeholder k = w @ w'" "w' \<noteq> []" "hd w' = CHR ''{''"
  shows "w = []"
proof (cases w)
  case Nil
  then show ?thesis .
next
  case (Cons c w0)
  with assms(2) have "k @ ''}'' = w0 @ w'" by (simp add: placeholder_def)
  then have "set (k @ ''}'') = set (w0 @ w')" by simp
  moreover from assms(3,4) have "CHR ''{'' \<in> set w'" by (metis hd_in_set)
  ultimately have "CHR ''{'' \<in> set (k @ ''}'')" by simp
  with assms(1) show ?thesis by (simp add: braceFree_def)
qed

lemma hd_placeholder: "hd (placeholder k @ a) = CHR ''{''"
  by (simp add: placeholder_def)

lemma disjoint_occurrence:
  assumes x: "braceFree x" and k: "braceFree k" and ne: "x \<noteq> k"
    and eq: "u @ placeholder x @ v = b @ placeholder k @ a"
  shows "sublist (placeholder x) b \<or> sublist (placeholder x) a"
proof -
  from eq consider
      (right) w where "u = b @ w" "w @ placeholder x @ v = placeholder k @ a"
    | (left) w where "u @ w = b" "placeholder x @ v = w @ placeholder k @ a"
    using append_eq_append_conv2 [of u "placeholder x @ v" b "placeholder k @ a"] by blast
  then show ?thesis
  proof cases
    case right
    from right(2) consider
        (far) w2 where "w = placeholder k @ w2" "w2 @ placeholder x @ v = a"
      | (near) w2 where "w @ w2 = placeholder k" "placeholder x @ v = w2 @ a"
      using append_eq_append_conv2 [of w "placeholder x @ v" "placeholder k" a] by blast
    then show ?thesis
    proof cases
      case far
      then show ?thesis by auto
    next
      case near
      show ?thesis
      proof (cases "w2 = []")
        case True
        with near show ?thesis by auto
      next
        case False
        with near(2) have "hd w2 = CHR ''{''"
          by (metis hd_append2 hd_placeholder)
        with placeholder_split [OF k near(1) [symmetric] False] have "w = []" by simp
        with near have "placeholder x @ v = placeholder k @ a" by simp
        with placeholder_prefix_eq [OF x k] ne show ?thesis by blast
      qed
    qed
  next
    case left
    from left(2) consider
        (inside) w2 where "placeholder x = w @ w2" "w2 @ v = placeholder k @ a"
      | (before) w2 where "placeholder x @ w2 = w" "v = w2 @ placeholder k @ a"
      using append_eq_append_conv2 [of "placeholder x" v w "placeholder k @ a"] by blast
    then show ?thesis
    proof cases
      case before
      with left(1) have "b = u @ placeholder x @ w2" by simp
      then show ?thesis by auto
    next
      case inside
      show ?thesis
      proof (cases "w2 = []")
        case True
        with inside left(1) have "b = u @ placeholder x" by simp
        then show ?thesis by auto
      next
        case False
        with inside(2) have "hd w2 = CHR ''{''"
          by (metis hd_append2 hd_placeholder)
        with placeholder_split [OF x inside(1) False] have "w = []" by simp
        with left(2) have "placeholder x @ v = placeholder k @ a" by simp
        with placeholder_prefix_eq [OF x k] ne show ?thesis by blast
      qed
    qed
  qed
qed

lemma js_replace_keeps:
  assumes "braceFree x" "braceFree k" "x \<noteq> k" "sublist (placeholder x) s"
  shows "sublist (placeholder x) (js_replace s (placeholder k) r)"
proof (cases "split_first (placeholder k) s")
  case None
  with assms(4) show ?thesis by (simp add: js_replace_def)
next
  case (Some fb)
  obtain b a where fb: "fb = (b, a)" by (cases fb)
  with Some have s: "s = b @ placeholder k @ a" by (simp add: split_first_Some)
  from assms(4) obtain u v where "s = u @ placeholder x @ v" by (auto simp: sublist_def)
  with s have "u @ placeholder x @ v = b @ placeholder k @ a" by simp
  from disjoint_occurrence [OF assms(1-3) this]
  have "sublist (placeholder x) (b @ getSubstitution (placeholder k) b a r @ a)"
    by (auto simp: sublist_append)
  with Some fb show ?thesis by (simp add: js_replace_def)
qed

lemma fold_keeps:
  assumes "braceFree x"
  shows "sublist (placeholder x) s \<Longrightarrow> \<forall>k \<in> set (map fst defaults). braceFree k \<and> k \<noteq> x \<Longrightarrow>
         sublist (placeholder x)
           (fold (\<lambda>(name, defaultValue) formattedUrl.
                    js_replace formattedUrl (placeholder name) (g name defaultValue))
              defaults s)"
proof (induction defaults arbitrary: s)
  case Nil
  then show ?case by simp
next
  case (Cons kd defaults)
  obtain k d where kd: "kd = (k, d)" by (cases kd)
  with Cons.prems have "braceFree k" "x \<noteq> k" by auto
  from js_replace_keeps [OF assms(1) this Cons.prems(1)]
  have step: "sublist (placeholder x) (js_replace s (placeholder k) (g k d))" .
  from Cons.prems(2) have rest: "\<forall>k \<in> set (map fst defaults). braceFree k \<and> k \<noteq> x" by simp
  from Cons.IH [OF step rest] kd show ?case by simp
qed

text \<open>
  C10 (as amended). For every template and every pair of variable maps on which
  \<^verbatim>\<open>constructServiceUrl\<close> does not throw, when no name of the default map
  contains a brace: every placeholder \<^verbatim>\<open>{name}\<close> that occurs in the template,
  whose name contains no brace and is not a name of the default map, still occurs
  in the returned string.
\<close>

theorem constructServiceUrl_keeps_foreign_placeholders:
  assumes "constructServiceUrl template defaults provided = Inr result"
    and "\<forall>k \<in> set (map fst defaults). braceFree k"
    and "braceFree name"
    and "name \<notin> set (map fst defaults)"
    and "sublist (placeholder name) template"
  shows "sublist (placeholder name) result"
proof -
  define pm where "pm = (case provided of None \<Rightarrow> [] | Some m \<Rightarrow> m)"
  define g where "g = (\<lambda>(n::string) (d::string). case map_of pm n of Some pv \<Rightarrow> pv | None \<Rightarrow> d)"
  have all: "\<forall>k \<in> set (map fst defaults). braceFree k \<and> k \<noteq> name"
    using assms(2,4) by auto
  from assms(1) have "result =
      fold (\<lambda>(n, d) formattedUrl. js_replace formattedUrl (placeholder n) (g n d)) defaults template"
    unfolding constructServiceUrl_def Let_def g_def pm_def
    by (simp split: option.splits)
  with fold_keeps [OF assms(3,5) all, of g] show ?thesis by simp
qed

text \<open>
  The witness: the template \<^verbatim>\<open>{scheme}://{host}/{region}\<close> with defaults for
  \<^verbatim>\<open>scheme\<close> and \<^verbatim>\<open>host\<close> only, and a provided \<^verbatim>\<open>host\<close>.
\<close>

theorem constructServiceUrl_keeps_foreign_placeholders_witness:
  "constructServiceUrl ''{scheme}://{host}/{region}''
     [(''scheme'', ''https''), (''host'', ''example.com'')] (Some [(''host'', ''h.test'')])
     = Inr ''https://h.test/{region}''
   \<and> sublist (placeholder ''region'') ''{scheme}://{host}/{region}''
   \<and> sublist (placeholder ''region'') ''https://h.test/{region}''"
proof -
  have r: "constructServiceUrl ''{scheme}://{host}/{region}''
     [(''scheme'', ''https''), (''host'', ''example.com'')] (Some [(''host'', ''h.test'')])
     = Inr ''https://h.test/{region}''"
    by (simp add: constructServiceUrl_def js_replace_def placeholder_def Let_def)
  have k: "\<forall>k \<in> set (map fst [(''scheme'', ''https''), (''host'', ''example.com'')]). braceFree k"
    by (simp add: braceFree_def)
  have n: "braceFree ''region''" by (simp add: braceFree_def)
  have f: "''region'' \<notin> set (map fst [(''scheme'', ''https''), (''host'', ''example.com'')])"
    by simp
  have t: "sublist (placeholder ''region'') ''{scheme}://{host}/{region}''"
    using sublist_appendI [of "placeholder ''region''" "''{scheme}://{host}/''" "[]"]
    by (simp add: placeholder_def)
  from constructServiceUrl_keeps_foreign_placeholders [OF r k n f t] r t
  show ?thesis by (intro conjI)
qed

text \<open>
  C10 as it was stated fails when a name of the default map contains braces: the
  placeholder of the name \<^verbatim>\<open>a}{x\<close> is \<^verbatim>\<open>{a}{x}\<close>, and replacing it removes the
  substring \<^verbatim>\<open>{x}\<close>, although \<^verbatim>\<open>x\<close> is not a name of the default map.
\<close>

theorem constructServiceUrl_keeps_foreign_placeholders_counterexample:
  "constructServiceUrl ''{a}{x}'' [(''a}{x'', ''v'')] None = Inr ''v''
   \<and> sublist (placeholder ''x'') ''{a}{x}''
   \<and> ''x'' \<notin> set (map fst [(''a}{x'', ''v'')])
   \<and> \<not> sublist (placeholder ''x'') ''v''"
proof -
  have r: "constructServiceUrl ''{a}{x}'' [(''a}{x'', ''v'')] None = Inr ''v''"
    by (simp add: constructServiceUrl_def js_replace_def placeholder_def Let_def)
  have t: "sublist (placeholder ''x'') ''{a}{x}''"
    using sublist_appendI [of "placeholder ''x''" "''{a}''" "[]"]
    by (simp add: placeholder_def)
  have f: "''x'' \<notin> set (map fst [(''a}{x'', ''v'')])" by simp
  have g: "\<not> sublist (placeholder ''x'') ''v''"
    by (simp add: placeholder_def sublist_Cons_right)
  from r t f g show ?thesis by (intro conjI)
qed

end
